theory Spec2Isabelle
  imports Complex_Main "HOL-Library.Char_ord" "HOL-Library.List_Lexorder"
    "HOL-Library.Multiset" "HOL-Library.Sublist"
begin

section \<open>Data model\<close>

text \<open>
  The program (\<^verbatim>\<open>pro_8.py\<close>) keeps a pandas DataFrame of shopping transactions, filters
  it by four combobox values and derives a summary and three detail reports.

  A DataFrame is modelled by the list of its column labels and the list of its rows, in
  index order. A row carries one field per column the program reads; a field of a column
  that is absent from \<open>columns\<close> is never read by the model without a check of
  \<open>columns\<close> first, exactly where the source checks \<^verbatim>\<open>in filtered_df.columns\<close>, and
  an unchecked read of an absent column is the \<^verbatim>\<open>KeyError\<close> pandas raises.

  The columns \<^verbatim>\<open>Gender\<close>, \<^verbatim>\<open>Age\<close>, \<^verbatim>\<open>Category\<close> and \<^verbatim>\<open>Season\<close> are read
  without a check while the module is loaded (lines 29, 56, 68, 73), so a dataset that
  reaches the main loop has them; the model takes them as present.

  \<^verbatim>\<open>Age\<close> is converted with \<^verbatim>\<open>astype(int)\<close> and is an \<open>int\<close> here. The values of the
  float columns \<^verbatim>\<open>Purchase Amount (USD)\<close> and \<^verbatim>\<open>Review Rating\<close> are reals. Sums of
  purchase amounts are exact sums: which rows are added up is modelled, the rounding of
  binary floating point is not. The mean ratings that the program rounds to two decimals
  are not evaluated at all: the model keeps them as the expression the program computes
  (\<open>float_expr\<close> below), since rounding a binary mean and rounding the exact mean can
  differ in the last digit.
\<close>

datatype age_label = Under25 | From25To35 | From35To45 | From45To55 | From55To65 | Over65

record row =
  customer_id :: int
  gender :: string
  age :: int
  category :: string
  season :: string
  item_purchased :: string
  color :: string
  location :: string
  purchase_amount :: real
  review_rating :: real
  previous_purchases :: int
  age_group :: "age_label option"

record frame =
  columns :: "string list"
  rows :: "row list"

datatype error = KeyError string | IndexError | ValueError

text \<open>\<^verbatim>\<open>pd.DataFrame()\<close>: no columns, no rows.\<close>

definition empty_frame :: frame where
  "empty_frame = \<lparr>columns = [], rows = []\<rparr>"

text \<open>\<^verbatim>\<open>DataFrame.empty\<close>: true when either axis has length 0.\<close>

definition is_empty :: "frame \<Rightarrow> bool" where
  "is_empty df \<longleftrightarrow> columns df = [] \<or> rows df = []"

text \<open>Boolean-mask indexing \<^verbatim>\<open>df[mask]\<close>: the rows whose mask is true, in order.\<close>

definition select :: "(row \<Rightarrow> bool) \<Rightarrow> frame \<Rightarrow> frame" where
  "select p df = df\<lparr>rows := filter p (rows df)\<rparr>"

section \<open>Dataset store: age buckets (lines 27-29)\<close>

definition age_bins :: "int list" where
  "age_bins = [0, 25, 35, 45, 55, 65, 100]"

definition age_labels :: "age_label list" where
  "age_labels = [Under25, From25To35, From35To45, From45To55, From55To65, Over65]"

text \<open>
  \<^verbatim>\<open>pd.cut(x, bins, labels, right=True, include_lowest=True)\<close>: the label of the first
  interval \<open>(lo, hi]\<close> of consecutive bin edges holding the value; the lowest edge itself
  belongs to the first interval; a value in no interval gets NaN (\<open>None\<close>).
\<close>

fun cut_right :: "int list \<Rightarrow> 'a list \<Rightarrow> int \<Rightarrow> 'a option" where
  "cut_right (lo # hi # bs) (l # ls) x =
     (if lo < x \<and> x \<le> hi then Some l else cut_right (hi # bs) ls x)"
| "cut_right _ _ _ = None"

definition pd_cut :: "int list \<Rightarrow> 'a list \<Rightarrow> int \<Rightarrow> 'a option" where
  "pd_cut bins labels x =
     (case (bins, labels) of
        (lo # _ # _, l # _) \<Rightarrow> if x = lo then Some l else cut_right bins labels x
      | _ \<Rightarrow> None)"

text \<open>Line 29: the column \<^verbatim>\<open>Age Group\<close> is appended to the cleaned dataset.\<close>

definition add_age_group :: "frame \<Rightarrow> frame" where
  "add_age_group df =
     \<lparr>columns = columns df @ [''Age Group''],
      rows = map (\<lambda>r. r\<lparr>age_group := pd_cut age_bins age_labels (age r)\<rparr>) (rows df)\<rparr>"

section \<open>Filter engine (lines 186-213)\<close>

definition apply_age_filter :: "frame \<Rightarrow> string \<Rightarrow> frame" where
  "apply_age_filter df age_range =
     (if age_range = ''18-25'' then select (\<lambda>r. age r \<ge> 18 \<and> age r \<le> 25) df
      else if age_range = ''26-35'' then select (\<lambda>r. age r \<ge> 26 \<and> age r \<le> 35) df
      else if age_range = ''36-45'' then select (\<lambda>r. age r \<ge> 36 \<and> age r \<le> 45) df
      else if age_range = ''46-60'' then select (\<lambda>r. age r \<ge> 46 \<and> age r \<le> 60) df
      else if age_range = ''60+'' then select (\<lambda>r. age r > 60) df
      else df)"

text \<open>The four combobox variables read by \<^verbatim>\<open>analyze_data\<close>.\<close>

record filter_spec =
  gender_var :: string
  age_var :: string
  category_var :: string
  season_var :: string

text \<open>Lines 203-213 of \<^verbatim>\<open>analyze_data\<close>: the filters, applied one after the other.\<close>

definition apply_filters :: "frame \<Rightarrow> filter_spec \<Rightarrow> frame" where
  "apply_filters df spec =
     (let f0 = df;
          f1 = (if gender_var spec \<noteq> ''All''
                then select (\<lambda>r. gender r = gender_var spec) f0 else f0);
          f2 = (if age_var spec \<noteq> ''All''
                then apply_age_filter f1 (age_var spec) else f1);
          f3 = (if category_var spec \<noteq> ''All''
                then select (\<lambda>r. category r = category_var spec) f2 else f2);
          f4 = (if season_var spec \<noteq> ''All''
                then select (\<lambda>r. season r = season_var spec) f3 else f3)
      in f4)"

section \<open>The pandas operations the program calls\<close>

text \<open>
  \<^verbatim>\<open>groupby(col)\<close> (with its default \<^verbatim>\<open>sort=True\<close>): one group per distinct key, the
  groups in ascending key order, each group holding its rows in their original order.
\<close>

definition groupby :: "(row \<Rightarrow> 'k::linorder) \<Rightarrow> row list \<Rightarrow> ('k \<times> row list) list" where
  "groupby key rs = map (\<lambda>k. (k, filter (\<lambda>r. key r = k) rs)) (sort (remdups (map key rs)))"

text \<open>
  \<^verbatim>\<open>Series.sort_values(ascending=False)\<close> on a series given as its (label, value) pairs.
  The program calls it with the default \<^verbatim>\<open>kind='quicksort'\<close>, which is not a stable
  sort. pandas reverses the values, sorts them ascending with numpy and reverses the
  result. numpy's quicksort sorts an array of at most 16 elements by insertion, which
  keeps equal values in their order, so on such a series equal values stay in the order
  the series had them. On a longer series the order of equal values depends on the
  partitioning steps of the library; the model does not fix it and takes the result of
  the library on longer series as a parameter \<open>long\<close>.
\<close>

definition sort_values_desc ::
  "(('k \<times> 'v::linorder) list \<Rightarrow> ('k \<times> 'v) list) \<Rightarrow> ('k \<times> 'v) list \<Rightarrow> ('k \<times> 'v) list" where
  "sort_values_desc long s = (if length s \<le> 16 then rev (sort_key snd (rev s)) else long s)"

text \<open>
  What is known of the library on a longer series: the result holds the same entries and
  its values do not increase.
\<close>

definition sorts_descending :: "(('k \<times> 'v::linorder) list \<Rightarrow> ('k \<times> 'v) list) \<Rightarrow> bool" where
  "sorts_descending long \<longleftrightarrow>
     (\<forall>s. mset (long s) = mset s \<and> sorted_wrt (\<lambda>p q. snd q \<le> snd p) (long s))"

text \<open>
  The two sorts the program needs: of counts (\<^verbatim>\<open>int64\<close>) and of sums of amounts
  (\<^verbatim>\<open>float64\<close>), each labelled by strings.
\<close>

record library =
  sort_long_counts :: "(string \<times> nat) list \<Rightarrow> (string \<times> nat) list"
  sort_long_amounts :: "(string \<times> real) list \<Rightarrow> (string \<times> real) list"

text \<open>\<^verbatim>\<open>Series.unique()\<close>: the distinct values in order of first appearance.\<close>

definition unique :: "'a list \<Rightarrow> 'a list" where
  "unique xs = rev (remdups (rev xs))"

text \<open>
  \<^verbatim>\<open>Series.value_counts()\<close>: the number of occurrences of each distinct value, highest
  count first.
\<close>

definition value_counts ::
  "(('a \<times> nat) list \<Rightarrow> ('a \<times> nat) list) \<Rightarrow> 'a list \<Rightarrow> ('a \<times> nat) list" where
  "value_counts long xs = sort_values_desc long (map (\<lambda>k. (k, count_list xs k)) (unique xs))"

text \<open>\<^verbatim>\<open>Series.idxmax()\<close>: the label of the first occurrence of the maximum.\<close>

definition idxmax :: "('k \<times> nat) list \<Rightarrow> error + 'k" where
  "idxmax s =
     (case s of
        [] \<Rightarrow> Inl ValueError
      | p # ps \<Rightarrow> Inr (fst (fold (\<lambda>q best. if snd best < snd q then q else best) ps p)))"

text \<open>
  \<^verbatim>\<open>DataFrame.nsmallest(n, col)\<close> (default \<^verbatim>\<open>keep='first'\<close>): the first \<open>n\<close> rows in
  ascending order of the column, equal values in their original order.
\<close>

definition nsmallest :: "nat \<Rightarrow> (row \<Rightarrow> int) \<Rightarrow> row list \<Rightarrow> row list" where
  "nsmallest n key rs = take n (sort_key key rs)"

text \<open>
  The floating-point results the program shows without the model evaluating them:
  \<open>Mean xs\<close> is \<^verbatim>\<open>Series.mean()\<close> of a series with the values \<open>xs\<close> in this order,
  \<open>Zero\<close> is the default \<^verbatim>\<open>0\<close> of \<^verbatim>\<open>.get(item, 0)\<close>, and \<open>Round2 e\<close> is
  \<^verbatim>\<open>round(e, 2)\<close>.
\<close>

datatype float_expr = Mean "real list" | Zero | Round2 float_expr

text \<open>\<^verbatim>\<open>Series.nunique()\<close>: the number of distinct values, NaN not counted.\<close>

definition nunique :: "'a option list \<Rightarrow> nat" where
  "nunique xs = length (remdups (List.map_filter (\<lambda>x. x) xs))"

text \<open>
  \<^verbatim>\<open>Series.mode()\<close> of a categorical series with the categories \<open>cats\<close>: NaN is dropped,
  the values with the highest count are returned in category order.
\<close>

definition mode :: "'a list \<Rightarrow> 'a option list \<Rightarrow> 'a list" where
  "mode cats xs =
     (let cnt = (\<lambda>l. count_list xs (Some l));
          m = fold max (map cnt cats) 0
      in filter (\<lambda>l. 0 < m \<and> cnt l = m) cats)"

section \<open>Summary calculations (lines 224-245)\<close>

text \<open>A value the program shows, or the text \<^verbatim>\<open>N/A\<close> it shows in its place.\<close>

datatype 'a or_na = Val 'a | NA

text \<open>
  The recommendation text: one line per item (item, number of rows, rounded mean
  rating), or the message that the item column is missing.
\<close>

datatype recommendation = Items "(string \<times> nat \<times> float_expr or_na) list" | NoItemColumn

record summary =
  total_sales :: real
  avg_rating :: "float_expr or_na"
  top_age_group :: "age_label or_na"
  total_records :: nat
  rec_text :: recommendation

text \<open>
  Lines 228-232. \<^verbatim>\<open>mode()[0]\<close> on an empty result is a \<^verbatim>\<open>KeyError\<close>.
\<close>

definition top_age_group_of :: "row list \<Rightarrow> error + age_label or_na" where
  "top_age_group_of rs =
     (if rs \<noteq> [] \<and> nunique (map age_group rs) > 0 then
        (case mode age_labels (map (\<lambda>r. pd_cut age_bins age_labels (age r)) rs) of
           [] \<Rightarrow> Inl (KeyError ''0'')
         | l # _ \<Rightarrow> Inr (Val l))
      else Inr NA)"

text \<open>Lines 234-245.\<close>

definition top_items_of :: "library \<Rightarrow> frame \<Rightarrow> recommendation" where
  "top_items_of lib df =
     (if ''Item Purchased'' \<in> set (columns df) then
        (let grouped = groupby item_purchased (rows df);
             top_items = take 3 (sort_values_desc (sort_long_counts lib)
                                   (map (\<lambda>(k, g). (k, length g)) grouped));
             avg_ratings_items =
               (if ''Review Rating'' \<in> set (columns df)
                then Some (map (\<lambda>(k, g). (k, Mean (map review_rating g))) grouped)
                else None)
         in Items (map (\<lambda>(item, count).
                      (item, count,
                       case avg_ratings_items of
                         None \<Rightarrow> NA
                       | Some avgs \<Rightarrow>
                           Val (Round2 (case map_of avgs item of None \<Rightarrow> Zero | Some m \<Rightarrow> m))))
                    top_items))
      else NoItemColumn)"

definition summary_calculations :: "library \<Rightarrow> frame \<Rightarrow> error + summary" where
  "summary_calculations lib df =
     (if ''Purchase Amount (USD)'' \<notin> set (columns df)
      then Inl (KeyError ''Purchase Amount (USD)'')
      else if ''Age Group'' \<notin> set (columns df) then Inl (KeyError ''Age Group'')
      else case top_age_group_of (rows df) of
             Inl e \<Rightarrow> Inl e
           | Inr top_group \<Rightarrow>
               Inr \<lparr>total_sales = sum_list (map purchase_amount (rows df)),
                    avg_rating =
                      (if ''Review Rating'' \<in> set (columns df)
                       then Val (Round2 (Mean (map review_rating (rows df)))) else NA),
                    top_age_group = top_group,
                    total_records = length (rows df),
                    rec_text = top_items_of lib df\<rparr>)"

text \<open>
  Lines 253-266: the series of the bar chart, total sales per category, highest first;
  \<open>None\<close> when the label \<^verbatim>\<open>No category data available for plotting.\<close> is shown.
\<close>

definition category_chart :: "library \<Rightarrow> frame \<Rightarrow> (string \<times> real) list option" where
  "category_chart lib df =
     (if ''Category'' \<in> set (columns df)
      then Some (sort_values_desc (sort_long_amounts lib)
                   (map (\<lambda>(k, g). (k, sum_list (map purchase_amount g)))
                      (groupby category (rows df))))
      else None)"

section \<open>Detail reports (lines 92-180)\<close>

text \<open>
  The text of the report window, as the data it is written from: in order, the two
  messages of lines 128 and 139, the location table with its top location, the colour
  table with its most popular colour, the laggards table, the message of line 156.
\<close>

datatype report =
    NoDataRunAnalysis
  | RequiredColumnsMissing
  | LocationSales "(string \<times> real) list" string
  | ColorPopularity "(string \<times> nat) list" string
  | LoyaltyLaggards "(int \<times> string \<times> int) list"
  | NoDataForReport

text \<open>Lines 124-156 of \<^verbatim>\<open>update_details_display\<close>.\<close>

definition report_text :: "library \<Rightarrow> frame \<Rightarrow> string \<Rightarrow> error + report" where
  "report_text lib filtered_df option =
     (if is_empty filtered_df then Inr NoDataRunAnalysis
      else if option = ''Location'' then
        (if ''Purchase Amount (USD)'' \<in> set (columns filtered_df)
            \<and> ''Location'' \<in> set (columns filtered_df)
         then
           (let loc_sales = sort_values_desc (sort_long_amounts lib)
                  (map (\<lambda>(k, g). (k, sum_list (map purchase_amount g)))
                     (groupby location (rows filtered_df)))
            in case loc_sales of
                 [] \<Rightarrow> Inl IndexError
               | (top_loc, _) # _ \<Rightarrow> Inr (LocationSales loc_sales top_loc))
         else Inr RequiredColumnsMissing)
      else if option = ''Color'' \<and> ''Color'' \<in> set (columns filtered_df) then
        (let color_counts = value_counts (sort_long_counts lib) (map color (rows filtered_df))
         in case idxmax color_counts of
              Inl e \<Rightarrow> Inl e
            | Inr top_color \<Rightarrow> Inr (ColorPopularity color_counts top_color))
      else if option = ''Least Purchases'' then
        (if ''Previous Purchases'' \<notin> set (columns filtered_df)
         then Inl (KeyError ''Previous Purchases'')
         else if ''Customer ID'' \<notin> set (columns filtered_df)
         then Inl (KeyError ''Customer ID'')
         else if ''Location'' \<notin> set (columns filtered_df)
         then Inl (KeyError ''Location'')
         else Inr (LoyaltyLaggards
                     (map (\<lambda>r. (customer_id r, location r, previous_purchases r))
                        (nsmallest 15 previous_purchases (rows filtered_df)))))
      else Inr NoDataForReport)"

section \<open>Session state\<close>

text \<open>
  The globals \<^verbatim>\<open>last_filtered_df\<close>, \<^verbatim>\<open>current_detail_option\<close> and
  \<^verbatim>\<open>details_popup\<close>. Of the popup window the model keeps whether it is shown and what
  its text box holds.
\<close>

record popup =
  mapped :: bool
  text_box :: "report option"

record session =
  last_filtered_df :: frame
  current_detail_option :: string
  details_popup :: "popup option"

definition update_details_display :: "library \<Rightarrow> string \<Rightarrow> session \<Rightarrow> error + session" where
  "update_details_display lib option s =
     (let s1 = s\<lparr>current_detail_option := option\<rparr>
      in case details_popup s1 of
           None \<Rightarrow> Inr s1
         | Some p \<Rightarrow>
             (case report_text lib (last_filtered_df s1) option of
                Inl e \<Rightarrow> Inl e
              | Inr text \<Rightarrow> Inr (s1\<lparr>details_popup := Some (p\<lparr>text_box := Some text\<rparr>)\<rparr>)))"

text \<open>
  \<^verbatim>\<open>show_details_popup\<close> returns the new session and the warning box it showed, if any.
\<close>

definition show_details_popup :: "library \<Rightarrow> session \<Rightarrow> error + session \<times> string option" where
  "show_details_popup lib s =
     (if is_empty (last_filtered_df s)
      then Inr (s, Some ''Please apply filters and run the analysis before viewing detailed reports.'')
      else
        (let p = (case details_popup s of
                    None \<Rightarrow> \<lparr>mapped = False, text_box = None\<rparr>
                  | Some p \<Rightarrow> p);
             s1 = s\<lparr>details_popup := Some (p\<lparr>mapped := True\<rparr>)\<rparr>
         in case update_details_display lib (current_detail_option s1) s1 of
              Inl e \<Rightarrow> Inl e
            | Inr s2 \<Rightarrow> Inr (s2, None)))"

text \<open>
  What \<^verbatim>\<open>analyze_data\<close> puts on the screen: the warning
  \<^verbatim>\<open>No records found for selected filters.\<close> with both frames cleared, or the summary
  and the chart.
\<close>

datatype outcome = NoRecordsFound | Analysed summary "(string \<times> real) list option"

definition analyze_data ::
  "library \<Rightarrow> frame \<Rightarrow> filter_spec \<Rightarrow> session \<Rightarrow> error + session \<times> outcome" where
  "analyze_data lib df spec s =
     (let filtered_df = apply_filters df spec
      in if is_empty filtered_df
         then Inr (s\<lparr>last_filtered_df := empty_frame\<rparr>, NoRecordsFound)
         else
           (let s1 = s\<lparr>last_filtered_df := filtered_df\<rparr>
            in case summary_calculations lib filtered_df of
                 Inl e \<Rightarrow> Inl e
               | Inr sm \<Rightarrow>
                   (let chart = category_chart lib filtered_df
                    in case details_popup s1 of
                         None \<Rightarrow> Inr (s1, Analysed sm chart)
                       | Some p \<Rightarrow>
                           if mapped p
                           then (case update_details_display lib (current_detail_option s1) s1 of
                                   Inl e \<Rightarrow> Inl e
                                 | Inr s2 \<Rightarrow> Inr (s2, Analysed sm chart))
                           else Inr (s1, Analysed sm chart))))"

section \<open>The specification's reading of a filter\<close>

text \<open>
  The predicates of the specification, written from its words and compared below with
  what the code computes. \<open>age_range_holds\<close> is the stated interval of each age range,
  \<open>satisfies\<close> the conjunction of the active criteria of a filter selection (the value
  \<^verbatim>\<open>All\<close> is no constraint), \<open>adds_one_constraint\<close> says that the second selection is
  the first with one more criterion set.
\<close>

definition age_range_holds :: "string \<Rightarrow> int \<Rightarrow> bool" where
  "age_range_holds rng a \<longleftrightarrow>
     (if rng = ''18-25'' then 18 \<le> a \<and> a \<le> 25
      else if rng = ''26-35'' then 26 \<le> a \<and> a \<le> 35
      else if rng = ''36-45'' then 36 \<le> a \<and> a \<le> 45
      else if rng = ''46-60'' then 46 \<le> a \<and> a \<le> 60
      else if rng = ''60+'' then 60 < a
      else True)"

definition satisfies :: "filter_spec \<Rightarrow> row \<Rightarrow> bool" where
  "satisfies spec r \<longleftrightarrow>
     (gender_var spec = ''All'' \<or> gender r = gender_var spec)
     \<and> age_range_holds (age_var spec) (age r)
     \<and> (category_var spec = ''All'' \<or> category r = category_var spec)
     \<and> (season_var spec = ''All'' \<or> season r = season_var spec)"

definition adds_one_constraint :: "filter_spec \<Rightarrow> filter_spec \<Rightarrow> bool" where
  "adds_one_constraint s1 s2 \<longleftrightarrow>
     (gender_var s1 = ''All'' \<and> gender_var s2 \<noteq> ''All'' \<and> age_var s2 = age_var s1
        \<and> category_var s2 = category_var s1 \<and> season_var s2 = season_var s1)
     \<or> (age_var s1 = ''All'' \<and> age_var s2 \<noteq> ''All'' \<and> gender_var s2 = gender_var s1
        \<and> category_var s2 = category_var s1 \<and> season_var s2 = season_var s1)
     \<or> (category_var s1 = ''All'' \<and> category_var s2 \<noteq> ''All'' \<and> gender_var s2 = gender_var s1
        \<and> age_var s2 = age_var s1 \<and> season_var s2 = season_var s1)
     \<or> (season_var s1 = ''All'' \<and> season_var s2 \<noteq> ''All'' \<and> gender_var s2 = gender_var s1
        \<and> age_var s2 = age_var s1 \<and> category_var s2 = category_var s1)"

section \<open>The specification's reading of the item ranking\<close>




definition listed_items :: "recommendation \<Rightarrow> string list" where
  "listed_items rec = (case rec of Items xs \<Rightarrow> map fst xs | NoItemColumn \<Rightarrow> [])"

section \<open>The specification's reading of the bucket counts\<close>

text \<open>
  The number of rows of a record set that the classification puts into a bucket.
\<close>

definition bucket_count :: "age_label \<Rightarrow> row list \<Rightarrow> nat" where
  "bucket_count b rs = length (filter (\<lambda>r. pd_cut age_bins age_labels (age r) = Some b) rs)"

section \<open>Example data\<close>

text \<open>
  A small dataset after cleaning, before the age groups are added: the two records of
  the specification's end-to-end scenario and three more, one of them older than 100.
\<close>

definition example_columns :: "string list" where
  "example_columns =
     [''Customer ID'', ''Age'', ''Gender'', ''Item Purchased'', ''Category'',
      ''Purchase Amount (USD)'', ''Location'', ''Color'', ''Season'', ''Review Rating'',
      ''Previous Purchases'']"

definition example_row :: "int \<Rightarrow> string \<Rightarrow> int \<Rightarrow> string \<Rightarrow> real \<Rightarrow> real \<Rightarrow> int \<Rightarrow> row" where
  "example_row i g a item amount rating prev =
     \<lparr>customer_id = i, gender = g, age = a, category = ''Shoes'', season = ''Winter'',
      item_purchased = item, color = ''Red'', location = ''Ohio'', purchase_amount = amount,
      review_rating = rating, previous_purchases = prev, age_group = None\<rparr>"

definition example_raw :: frame where
  "example_raw =
     \<lparr>columns = example_columns,
      rows = [example_row 1 ''F'' 30 ''B'' 50 4 7,
              example_row 2 ''M'' 40 ''A'' 30 3 2,
              example_row 3 ''M'' 60 ''C'' 20 5 2,
              example_row 4 ''F'' 101 ''A'' 10 2 9,
              example_row 5 ''M'' 30 ''C'' 40 1 0]\<rparr>"

definition unconstrained :: filter_spec where
  "unconstrained =
     \<lparr>gender_var = ''All'', age_var = ''All'', category_var = ''All'', season_var = ''All''\<rparr>"

text \<open>
  A library for the examples, which sorts a longer series the way a short one is sorted.
  No example below sorts a series of more than 16 entries, so no example depends on it.
\<close>

definition example_library :: library where
  "example_library =
     \<lparr>sort_long_counts = (\<lambda>s. rev (sort_key snd (rev s))),
      sort_long_amounts = (\<lambda>s. rev (sort_key snd (rev s)))\<rparr>"

definition idle_session :: session where
  "idle_session =
     \<lparr>last_filtered_df = empty_frame, current_detail_option = ''Location'',
      details_popup = None\<rparr>"

text \<open>
  The same dataset read from a file without the column \<^verbatim>\<open>Previous Purchases\<close>, and
  from one without the column \<^verbatim>\<open>Purchase Amount (USD)\<close>; a report window that is
  open and shows an earlier report.
\<close>

definition example_without_previous :: frame where
  "example_without_previous =
     add_age_group (example_raw\<lparr>columns := remove1 ''Previous Purchases'' example_columns\<rparr>)"

definition example_without_amount :: frame where
  "example_without_amount =
     add_age_group (example_raw\<lparr>columns := remove1 ''Purchase Amount (USD)'' example_columns\<rparr>)"

definition shown_popup :: popup where
  "shown_popup = \<lparr>mapped = True, text_box = Some (LoyaltyLaggards [])\<rparr>"

section \<open>Filter engine: proofs\<close>

lemma select_simps [simp]:
  "rows (select p df) = filter p (rows df)" "columns (select p df) = columns df"
  by (simp_all add: select_def)

lemma apply_age_filter_columns: "columns (apply_age_filter df rng) = columns df"
  by (simp add: apply_age_filter_def)

lemma apply_age_filter_rows:
  "rows (apply_age_filter df rng) = filter (\<lambda>r. age_range_holds rng (age r)) (rows df)"
  by (simp add: apply_age_filter_def age_range_holds_def)

lemma apply_filters_columns: "columns (apply_filters df spec) = columns df"
  by (simp add: apply_filters_def Let_def apply_age_filter_columns)

text \<open>The chain of filters keeps the rows that satisfy every active criterion.\<close>

lemma apply_filters_rows:
  "rows (apply_filters df spec) = filter (satisfies spec) (rows df)"
proof -
  have age: "rows (apply_age_filter f (age_var spec)) =
      filter (\<lambda>r. age_range_holds (age_var spec) (age r)) (rows f)" for f
    by (rule apply_age_filter_rows)
  have all: "age_range_holds ''All'' a" for a
    by (simp add: age_range_holds_def)
  show ?thesis
    unfolding apply_filters_def Let_def satisfies_def
    by (auto simp: age all intro!: filter_cong)
qed

text \<open>
  C1. The age-range filter keeps exactly the rows whose age lies in the closed interval
  of the selected range: 18..25, 26..35, 36..45 and 46..60; the range \<^verbatim>\<open>60+\<close> keeps the
  rows with an age above 60 only. The frame keeps its columns. A row of age 60 is kept by
  \<^verbatim>\<open>46-60\<close> and dropped by \<^verbatim>\<open>60+\<close>.
\<close>

theorem apply_age_filter_intervals:
  "rows (apply_age_filter df ''18-25'') = filter (\<lambda>r. 18 \<le> age r \<and> age r \<le> 25) (rows df)
   \<and> rows (apply_age_filter df ''26-35'') = filter (\<lambda>r. 26 \<le> age r \<and> age r \<le> 35) (rows df)
   \<and> rows (apply_age_filter df ''36-45'') = filter (\<lambda>r. 36 \<le> age r \<and> age r \<le> 45) (rows df)
   \<and> rows (apply_age_filter df ''46-60'') = filter (\<lambda>r. 46 \<le> age r \<and> age r \<le> 60) (rows df)
   \<and> rows (apply_age_filter df ''60+'') = filter (\<lambda>r. 60 < age r) (rows df)
   \<and> columns (apply_age_filter df rng) = columns df
   \<and> rows (apply_age_filter (df\<lparr>rows := [r\<lparr>age := 60\<rparr>]\<rparr>) ''46-60'') = [r\<lparr>age := 60\<rparr>]
   \<and> rows (apply_age_filter (df\<lparr>rows := [r\<lparr>age := 60\<rparr>]\<rparr>) ''60+'') = []"
  by (simp add: apply_age_filter_def)

text \<open>
  C6. With all four criteria at \<^verbatim>\<open>All\<close> the filtered frame is the whole dataset, rows
  and columns unchanged.
\<close>

theorem apply_filters_unconstrained:
  "apply_filters df
     \<lparr>gender_var = ''All'', age_var = ''All'', category_var = ''All'', season_var = ''All''\<rparr>
   = df"
  by (simp add: apply_filters_def)

text \<open>
  C9. When the second selection is the first with one more criterion set, the rows it
  selects are among the rows the first selects; they even form a subsequence of them.
\<close>

theorem apply_filters_monotone:
  assumes "adds_one_constraint s1 s2"
  shows "set (rows (apply_filters df s2)) \<subseteq> set (rows (apply_filters df s1))
         \<and> subseq (rows (apply_filters df s2)) (rows (apply_filters df s1))"
proof -
  have all: "age_range_holds ''All'' a" for a
    by (simp add: age_range_holds_def)
  have imp: "satisfies s2 r \<Longrightarrow> satisfies s1 r" for r
    using assms unfolding adds_one_constraint_def satisfies_def
    by (elim disjE conjE) (simp_all add: all)
  have "filter (satisfies s2) (rows df) = filter (satisfies s2) (filter (satisfies s1) (rows df))"
    using imp by (auto intro: filter_cong)
  then have eq: "rows (apply_filters df s2) = filter (satisfies s2) (rows (apply_filters df s1))"
    by (simp only: apply_filters_rows)
  show ?thesis
    unfolding eq by (simp add: subset_iff)
qed

theorem apply_filters_monotone_witness:
  "adds_one_constraint unconstrained (unconstrained\<lparr>gender_var := ''F''\<rparr>)
   \<and> set (rows (apply_filters (add_age_group example_raw) (unconstrained\<lparr>gender_var := ''F''\<rparr>)))
       \<subseteq> set (rows (apply_filters (add_age_group example_raw) unconstrained))
   \<and> rows (apply_filters (add_age_group example_raw) (unconstrained\<lparr>gender_var := ''F''\<rparr>))
       = map (\<lambda>r. r\<lparr>age_group := pd_cut age_bins age_labels (age r)\<rparr>)
           [example_row 1 ''F'' 30 ''B'' 50 4 7, example_row 4 ''F'' 101 ''A'' 10 2 9]"
proof -
  have h: "adds_one_constraint unconstrained (unconstrained\<lparr>gender_var := ''F''\<rparr>)"
    by (simp add: adds_one_constraint_def unconstrained_def)
  have r: "rows (apply_filters (add_age_group example_raw) (unconstrained\<lparr>gender_var := ''F''\<rparr>))
       = map (\<lambda>r. r\<lparr>age_group := pd_cut age_bins age_labels (age r)\<rparr>)
           [example_row 1 ''F'' 30 ''B'' 50 4 7, example_row 4 ''F'' 101 ''A'' 10 2 9]"
    by (simp add: apply_filters_def unconstrained_def add_age_group_def example_raw_def
        example_row_def)
  from apply_filters_monotone [OF h, of "add_age_group example_raw"] h r show ?thesis
    by blast
qed

section \<open>Age buckets and the most active age group: auxiliary facts\<close>

lemma fold_max_ge2: "(a::nat) \<le> fold max xs a" "x \<in> set xs \<Longrightarrow> x \<le> fold max xs a"
proof -
  have "fold max xs a = Max (set (a # xs))" by (rule Max.set_eq_fold [symmetric])
  then show "(a::nat) \<le> fold max xs a" "x \<in> set xs \<Longrightarrow> x \<le> fold max xs a" by auto
qed

lemma fold_max_in: "fold max xs (a::nat) = a \<or> fold max xs a \<in> set xs"
proof -
  have "fold max xs a = Max (set (a # xs))" by (rule Max.set_eq_fold [symmetric])
  moreover have "Max (set (a # xs)) \<in> set (a # xs)" by (rule Max_in) auto
  ultimately show ?thesis by auto
qed

lemma mode_eq_Cons:
  assumes "mode cats xs = l # ls"
  shows "\<exists>pre post. cats = pre @ l # post
           \<and> (\<forall>b\<in>set pre. count_list xs (Some b) < count_list xs (Some l))
           \<and> (\<forall>b\<in>set post. count_list xs (Some b) \<le> count_list xs (Some l))
           \<and> 0 < count_list xs (Some l)"
proof -
  define cnt where "cnt = (\<lambda>b. count_list xs (Some b))"
  define m where "m = fold max (map cnt cats) 0"
  have f: "filter (\<lambda>b. 0 < m \<and> cnt b = m) cats = l # ls"
    using assms by (simp add: mode_def Let_def cnt_def m_def)
  then obtain pre post where c: "cats = pre @ l # post"
    and pre: "\<forall>b\<in>set pre. \<not> (0 < m \<and> cnt b = m)" and l: "0 < m \<and> cnt l = m"
    by (auto simp: filter_eq_Cons_iff)
  have le: "cnt b \<le> m" if "b \<in> set cats" for b
    unfolding m_def using that fold_max_ge2(2) [of "cnt b" "map cnt cats" 0] by simp
  have "\<forall>b\<in>set pre. cnt b < cnt l"
    using pre l le c by (metis Un_iff le_neq_implies_less set_append)
  moreover have "\<forall>b\<in>set post. cnt b \<le> cnt l"
    using l le c by simp
  ultimately show ?thesis using c l unfolding cnt_def by blast
qed

lemma mode_nonempty:
  assumes "l \<in> set cats" "Some l \<in> set xs"
  shows "mode cats xs \<noteq> []"
proof -
  define cnt where "cnt = (\<lambda>b. count_list xs (Some b))"
  define m where "m = fold max (map cnt cats) 0"
  have "0 < cnt l" using assms(2) count_list_0_iff [of xs "Some l"] by (auto simp: cnt_def)
  moreover have "cnt l \<le> m"
    unfolding m_def using assms(1) fold_max_ge2(2) [of "cnt l" "map cnt cats" 0] by simp
  ultimately have pos: "0 < m" by simp
  then have "m \<in> set (map cnt cats)"
    using fold_max_in [of "map cnt cats" 0] by (auto simp: m_def)
  then obtain b where "b \<in> set cats" "cnt b = m" by auto
  with pos have "filter (\<lambda>b. 0 < m \<and> cnt b = m) cats \<noteq> []"
    by (auto simp: filter_empty_conv)
  then show ?thesis by (simp add: mode_def Let_def cnt_def m_def)
qed

lemma nunique_pos: "0 < nunique xs \<longleftrightarrow> (\<exists>l. Some l \<in> set xs)"
  by (auto simp: nunique_def List.map_filter_def filter_empty_conv)

lemma cut_age_cases:
  "pd_cut age_bins age_labels a =
     (if 0 \<le> a \<and> a \<le> 25 then Some Under25
      else if 25 < a \<and> a \<le> 35 then Some From25To35
      else if 35 < a \<and> a \<le> 45 then Some From35To45
      else if 45 < a \<and> a \<le> 55 then Some From45To55
      else if 55 < a \<and> a \<le> 65 then Some From55To65
      else if 65 < a \<and> a \<le> 100 then Some Over65
      else None)"
  by (simp add: pd_cut_def age_bins_def age_labels_def)

lemma cut_in_labels: "pd_cut age_bins age_labels a = Some l \<Longrightarrow> l \<in> set age_labels"
  by (cases l) (simp_all add: age_labels_def)

lemma loaded_age_group:
  "r \<in> set (rows (apply_filters (add_age_group raw) spec)) \<Longrightarrow>
     age_group r = pd_cut age_bins age_labels (age r)"
  by (auto simp: apply_filters_rows add_age_group_def)

lemma top_age_group_of_total:
  assumes "\<And>r. r \<in> set rs \<Longrightarrow> age_group r = pd_cut age_bins age_labels (age r)"
  shows "\<exists>t. top_age_group_of rs = Inr t"
proof (cases "rs \<noteq> [] \<and> nunique (map age_group rs) > 0")
  case False
  then show ?thesis by (auto simp: top_age_group_of_def)
next
  case True
  then obtain r l where r: "r \<in> set rs" "age_group r = Some l"
    by (force simp: nunique_pos)
  then have c: "pd_cut age_bins age_labels (age r) = Some l" using assms by simp
  then have "Some l \<in> set (map (\<lambda>r. pd_cut age_bins age_labels (age r)) rs)"
    using r(1) by force
  then have "mode age_labels (map (\<lambda>r. pd_cut age_bins age_labels (age r)) rs) \<noteq> []"
    using cut_in_labels [OF c] by (rule mode_nonempty [rotated])
  then show ?thesis using True
    by (auto simp: top_age_group_of_def split: list.splits)
qed

lemma summary_calculations_total:
  assumes "''Purchase Amount (USD)'' \<in> set (columns raw)"
  shows "\<exists>sm. summary_calculations lib (apply_filters (add_age_group raw) spec) = Inr sm
           \<and> total_sales sm =
               sum_list (map purchase_amount (rows (apply_filters (add_age_group raw) spec)))"
proof -
  let ?f = "apply_filters (add_age_group raw) spec"
  obtain t where t: "top_age_group_of (rows ?f) = Inr t"
    using top_age_group_of_total [of "rows ?f"] loaded_age_group by blast
  have cols: "columns ?f = columns raw @ [''Age Group'']"
    by (simp add: apply_filters_columns add_age_group_def)
  show ?thesis
    using assms by (simp add: summary_calculations_def cols t)
qed

section \<open>Summary, empty result and missing columns\<close>

text \<open>
  C2. On a loaded dataset with the purchase amount column, the summary calculations on
  the filtered frame succeed and their total sales is the sum of the purchase amounts of
  exactly the rows that satisfy all active criteria of the selection; whenever
  \<^verbatim>\<open>analyze_data\<close> shows a summary, its total sales is that sum.
\<close>

theorem total_sales_conservation:
  assumes "''Purchase Amount (USD)'' \<in> set (columns raw)"
  shows "(\<exists>sm. summary_calculations lib (apply_filters (add_age_group raw) spec) = Inr sm
            \<and> total_sales sm =
                sum_list (map purchase_amount (filter (satisfies spec) (rows (add_age_group raw)))))
         \<and> (\<forall>s s' sm chart.
              analyze_data lib (add_age_group raw) spec s = Inr (s', Analysed sm chart) \<longrightarrow>
              total_sales sm =
                sum_list (map purchase_amount (filter (satisfies spec) (rows (add_age_group raw)))))"
proof -
  let ?f = "apply_filters (add_age_group raw) spec"
  obtain sm0 where sm0: "summary_calculations lib ?f = Inr sm0"
    and t: "total_sales sm0 = sum_list (map purchase_amount (rows ?f))"
    using summary_calculations_total [OF assms] by blast
  have "total_sales sm = total_sales sm0"
    if "analyze_data lib (add_age_group raw) spec s = Inr (s', Analysed sm chart)" for s s' sm chart
    using that sm0
    by (auto simp: analyze_data_def Let_def split: if_splits option.splits sum.splits)
  with sm0 t show ?thesis
    by (simp add: apply_filters_rows)
qed

theorem total_sales_conservation_witness:
  "''Purchase Amount (USD)'' \<in> set (columns example_raw)
   \<and> analyze_data example_library (add_age_group example_raw) (unconstrained\<lparr>gender_var := ''F''\<rparr>) idle_session
       = Inr (idle_session\<lparr>last_filtered_df :=
                 apply_filters (add_age_group example_raw) (unconstrained\<lparr>gender_var := ''F''\<rparr>)\<rparr>,
              Analysed
                \<lparr>total_sales = 60, avg_rating = Val (Round2 (Mean [4, 2])), top_age_group = Val From25To35,
                 total_records = 2,
                 rec_text = Items [(''A'', 1, Val (Round2 (Mean [2]))),
                                   (''B'', 1, Val (Round2 (Mean [4])))]\<rparr>
                (Some [(''Shoes'', 60)]))
   \<and> sum_list (map purchase_amount
        (filter (satisfies (unconstrained\<lparr>gender_var := ''F''\<rparr>)) (rows (add_age_group example_raw))))
       = 60"
proof -
  let ?spec = "unconstrained\<lparr>gender_var := ''F''\<rparr>"
  have h: "''Purchase Amount (USD)'' \<in> set (columns example_raw)"
    by (simp add: example_raw_def example_columns_def)
  have e: "analyze_data example_library (add_age_group example_raw) ?spec idle_session
       = Inr (idle_session\<lparr>last_filtered_df := apply_filters (add_age_group example_raw) ?spec\<rparr>,
              Analysed
                \<lparr>total_sales = 60, avg_rating = Val (Round2 (Mean [4, 2])), top_age_group = Val From25To35,
                 total_records = 2,
                 rec_text = Items [(''A'', 1, Val (Round2 (Mean [2]))),
                                   (''B'', 1, Val (Round2 (Mean [4])))]\<rparr>
                (Some [(''Shoes'', 60)]))"
    by code_simp
  from total_sales_conservation [OF h, of example_library ?spec] e
  have "(60::real) = sum_list (map purchase_amount
        (filter (satisfies ?spec) (rows (add_age_group example_raw))))"
    by (metis summary.select_convs(1))
  with h e show ?thesis by simp
qed


text \<open>
  C7. When the selection matches no row, \<^verbatim>\<open>analyze_data\<close> returns the "no records"
  outcome without running the summary calculations and stores the empty frame; after
  that, asking for the detailed reports gives the "no data" warning, and choosing any
  report in an open report window writes the "no data" text. All of these are values,
  none is an error.
\<close>

theorem empty_result_short_circuit:
  assumes "rows (apply_filters df spec) = []"
  shows "analyze_data lib df spec s = Inr (s\<lparr>last_filtered_df := empty_frame\<rparr>, NoRecordsFound)
         \<and> show_details_popup lib (s\<lparr>last_filtered_df := empty_frame\<rparr>)
             = Inr (s\<lparr>last_filtered_df := empty_frame\<rparr>,
                    Some ''Please apply filters and run the analysis before viewing detailed reports.'')
         \<and> report_text lib empty_frame option = Inr NoDataRunAnalysis
         \<and> update_details_display lib option (s\<lparr>last_filtered_df := empty_frame\<rparr>)
             = Inr (s\<lparr>last_filtered_df := empty_frame, current_detail_option := option,
                       details_popup := map_option (\<lambda>p. p\<lparr>text_box := Some NoDataRunAnalysis\<rparr>)
                                          (details_popup s)\<rparr>)"
proof -
  have e: "is_empty (apply_filters df spec)" "is_empty empty_frame"
    using assms by (simp_all add: is_empty_def empty_frame_def)
  have a: "analyze_data lib df spec s = Inr (s\<lparr>last_filtered_df := empty_frame\<rparr>, NoRecordsFound)"
    using e(1) by (simp add: analyze_data_def)
  have b: "show_details_popup lib (s\<lparr>last_filtered_df := empty_frame\<rparr>)
             = Inr (s\<lparr>last_filtered_df := empty_frame\<rparr>,
                    Some ''Please apply filters and run the analysis before viewing detailed reports.'')"
    using e(2) by (simp add: show_details_popup_def)
  have c: "report_text lib empty_frame option = Inr NoDataRunAnalysis"
    using e(2) by (simp add: report_text_def)
  have d: "update_details_display lib option (s\<lparr>last_filtered_df := empty_frame\<rparr>)
             = Inr (s\<lparr>last_filtered_df := empty_frame, current_detail_option := option,
                       details_popup := map_option (\<lambda>p. p\<lparr>text_box := Some NoDataRunAnalysis\<rparr>)
                                          (details_popup s)\<rparr>)"
    by (cases "details_popup s") (simp_all add: update_details_display_def c)
  from a b c d show ?thesis by blast
qed

theorem empty_result_short_circuit_witness:
  "rows (apply_filters example_without_amount (unconstrained\<lparr>season_var := ''Summer''\<rparr>)) = []
   \<and> summary_calculations example_library (apply_filters example_without_amount (unconstrained\<lparr>season_var := ''Summer''\<rparr>))
       = Inl (KeyError ''Purchase Amount (USD)'')
   \<and> analyze_data example_library example_without_amount (unconstrained\<lparr>season_var := ''Summer''\<rparr>)
        (idle_session\<lparr>details_popup := Some shown_popup\<rparr>)
       = Inr (idle_session\<lparr>details_popup := Some shown_popup\<rparr>, NoRecordsFound)
   \<and> update_details_display example_library ''Color'' (idle_session\<lparr>details_popup := Some shown_popup\<rparr>)
       = Inr \<lparr>last_filtered_df = empty_frame, current_detail_option = ''Color'',
              details_popup = Some \<lparr>mapped = True, text_box = Some NoDataRunAnalysis\<rparr>\<rparr>"
proof -
  let ?spec = "unconstrained\<lparr>season_var := ''Summer''\<rparr>"
  let ?s = "idle_session\<lparr>details_popup := Some shown_popup\<rparr>"
  have h: "rows (apply_filters example_without_amount ?spec) = []"
    by code_simp
  have k: "summary_calculations example_library (apply_filters example_without_amount ?spec)
       = Inl (KeyError ''Purchase Amount (USD)'')"
    by code_simp
  have i: "?s\<lparr>last_filtered_df := empty_frame\<rparr> = ?s"
    by (simp add: idle_session_def)
  from empty_result_short_circuit [OF h, of example_library ?s "''Color''"] h k show ?thesis
    unfolding i by (simp add: idle_session_def shown_popup_def)
qed

text \<open>
  C8. On a dataset without the column \<^verbatim>\<open>Previous Purchases\<close> the report
  \<^verbatim>\<open>Least Purchases\<close> raises \<^verbatim>\<open>KeyError\<close>, and without the column
  \<^verbatim>\<open>Purchase Amount (USD)\<close> the analysis raises \<^verbatim>\<open>KeyError\<close>, whereas the location
  report answers the same missing column with its "required columns are missing" text.
\<close>

theorem laggards_report_raises_without_column:
  "update_details_display example_library ''Least Purchases''
     \<lparr>last_filtered_df = apply_filters example_without_previous unconstrained,
      current_detail_option = ''Location'',
      details_popup = Some \<lparr>mapped = True, text_box = None\<rparr>\<rparr>
     = Inl (KeyError ''Previous Purchases'')
   \<and> analyze_data example_library example_without_amount unconstrained idle_session
     = Inl (KeyError ''Purchase Amount (USD)'')
   \<and> report_text example_library (apply_filters example_without_amount unconstrained) ''Location''
     = Inr RequiredColumnsMissing"
  by code_simp

section \<open>Loyalty laggards\<close>

lemma nsmallest_length: "length (nsmallest n key rs) = min n (length rs)"
  by (simp add: nsmallest_def min.commute)

lemma nsmallest_sorted: "sorted (map key (nsmallest n key rs))"
  by (simp add: nsmallest_def take_map [symmetric] sorted_wrt_take)

lemma nsmallest_mset:
  "mset (nsmallest n key rs) + mset (drop n (sort_key key rs)) = mset rs"
proof -
  have "mset (take n (sort_key key rs)) + mset (drop n (sort_key key rs))
      = mset (sort_key key rs)"
    by (simp only: mset_append [symmetric] append_take_drop_id)
  then show ?thesis by (simp add: nsmallest_def)
qed

lemma nsmallest_least:
  assumes "q \<in> set (nsmallest n key rs)" "r \<in># mset rs - mset (nsmallest n key rs)"
  shows "key q \<le> key r"
proof -
  let ?s = "sort_key key rs"
  have "mset rs - mset (nsmallest n key rs) = mset (drop n ?s)"
    using nsmallest_mset [of n key rs] by (metis add_diff_cancel_left')
  then have r: "r \<in> set (drop n ?s)" using assms(2) by simp
  have "sorted (map key (take n ?s @ drop n ?s))" by simp
  then have "\<forall>x\<in>set (take n ?s). \<forall>y\<in>set (drop n ?s). key x \<le> key y"
    unfolding map_append sorted_append by simp
  with r assms(1) show ?thesis by (simp add: nsmallest_def)
qed

lemma nsmallest_stable:
  "prefix (filter (\<lambda>r. key r = k) (nsmallest n key rs)) (filter (\<lambda>r. key r = k) rs)"
proof -
  have "prefix (filter (\<lambda>r. key r = k) (take n (sort_key key rs)))
          (filter (\<lambda>r. key r = k) (sort_key key rs))"
    by (intro filter_mono_prefix take_is_prefix)
  then show ?thesis by (simp add: nsmallest_def sort_key_stable)
qed

lemma nsmallest_all: "length rs \<le> n \<Longrightarrow> mset (nsmallest n key rs) = mset rs"
  by (simp add: nsmallest_def)

text \<open>
  C4. On a non-empty filtered frame with the three columns of the report, the report
  \<^verbatim>\<open>Least Purchases\<close> lists (customer id, location, previous purchases) of 15 rows, or
  of all rows when there are fewer: the listed rows are in ascending order of previous
  purchases, every row left out has at least as many previous purchases as every listed
  row, and rows with equal previous purchases are listed in their original order, the
  earliest ones first. With at most 15 rows none is omitted.
\<close>

theorem loyalty_laggards_report:
  assumes "rows df \<noteq> []"
    and "''Previous Purchases'' \<in> set (columns df)"
    and "''Customer ID'' \<in> set (columns df)"
    and "''Location'' \<in> set (columns df)"
  shows "\<exists>rs. report_text lib df ''Least Purchases''
                = Inr (LoyaltyLaggards
                        (map (\<lambda>r. (customer_id r, location r, previous_purchases r)) rs))
           \<and> length rs = min 15 (length (rows df))
           \<and> sorted (map previous_purchases rs)
           \<and> mset rs \<subseteq># mset (rows df)
           \<and> (\<forall>q\<in>set rs. \<forall>r\<in>#mset (rows df) - mset rs.
                 previous_purchases q \<le> previous_purchases r)
           \<and> (\<forall>k. prefix (filter (\<lambda>r. previous_purchases r = k) rs)
                         (filter (\<lambda>r. previous_purchases r = k) (rows df)))
           \<and> (length (rows df) \<le> 15 \<longrightarrow> mset rs = mset (rows df))"
proof -
  let ?rs = "nsmallest 15 previous_purchases (rows df)"
  have ne: "\<not> is_empty df"
    using assms(1,2) by (auto simp: is_empty_def)
  have "report_text lib df ''Least Purchases''
          = Inr (LoyaltyLaggards
                  (map (\<lambda>r. (customer_id r, location r, previous_purchases r)) ?rs))"
    using ne assms(2-4) by (simp add: report_text_def)
  moreover have "mset ?rs \<subseteq># mset (rows df)"
    using nsmallest_mset [of 15 previous_purchases "rows df"] by (metis mset_subset_eq_add_left)
  ultimately show ?thesis
    using nsmallest_length nsmallest_sorted nsmallest_least nsmallest_stable nsmallest_all
    by (intro exI [of _ ?rs]) blast
qed

theorem loyalty_laggards_report_witness:
  "rows (add_age_group example_raw) \<noteq> []
   \<and> ''Previous Purchases'' \<in> set (columns (add_age_group example_raw))
   \<and> ''Customer ID'' \<in> set (columns (add_age_group example_raw))
   \<and> ''Location'' \<in> set (columns (add_age_group example_raw))
   \<and> report_text example_library (add_age_group example_raw) ''Least Purchases''
       = Inr (LoyaltyLaggards
               [(5, ''Ohio'', 0), (2, ''Ohio'', 2), (3, ''Ohio'', 2), (1, ''Ohio'', 7),
                (4, ''Ohio'', 9)])
   \<and> (\<exists>rs. report_text example_library (add_age_group example_raw) ''Least Purchases''
                = Inr (LoyaltyLaggards
                        (map (\<lambda>r. (customer_id r, location r, previous_purchases r)) rs))
           \<and> length rs = 5 \<and> mset rs = mset (rows (add_age_group example_raw)))"
proof -
  let ?df = "add_age_group example_raw"
  have h: "rows ?df \<noteq> []" "''Previous Purchases'' \<in> set (columns ?df)"
    "''Customer ID'' \<in> set (columns ?df)" "''Location'' \<in> set (columns ?df)"
    by (simp_all add: add_age_group_def example_raw_def example_columns_def)
  have l: "length (rows ?df) = 5"
    by (simp add: add_age_group_def example_raw_def)
  have e: "report_text example_library ?df ''Least Purchases''
       = Inr (LoyaltyLaggards
               [(5, ''Ohio'', 0), (2, ''Ohio'', 2), (3, ''Ohio'', 2), (1, ''Ohio'', 7),
                (4, ''Ohio'', 9)])"
    by code_simp
  from loyalty_laggards_report [OF h, of example_library] l
  have "\<exists>rs. report_text example_library ?df ''Least Purchases''
                = Inr (LoyaltyLaggards
                        (map (\<lambda>r. (customer_id r, location r, previous_purchases r)) rs))
           \<and> length rs = 5 \<and> mset rs = mset (rows ?df)"
    by auto
  with h e show ?thesis by blast
qed

section \<open>Most active age group\<close>

lemma count_list_bucket:
  "count_list (map (\<lambda>r. pd_cut age_bins age_labels (age r)) rs) (Some b) = bucket_count b rs"
  by (induction rs) (simp_all add: bucket_count_def)

lemma all_labels: "b \<in> set age_labels"
  by (cases b) (simp_all add: age_labels_def)

lemma mode_cong:
  assumes "\<And>l. count_list xs (Some l) = count_list ys (Some l)"
  shows "mode cats xs = mode cats ys"
  by (simp add: mode_def assms)

lemma cut_age_Some_iff: "(\<exists>b. pd_cut age_bins age_labels a = Some b) \<longleftrightarrow> 0 \<le> a \<and> a \<le> 100"
  by (auto simp: cut_age_cases split: if_splits)

text \<open>
  C5 as amended. On a filtered set of a loaded dataset, every row's stored age group is
  the bucket recomputed from its age, by the classification 0..25, 26..35, 36..45,
  46..55, 56..65, 66..100, no bucket outside 0..100. When some row has an age in 0..100,
  the most active age group is the bucket with the most rows, the earliest of the six
  when several have the most; when no row has an age in 0..100, it is \<^verbatim>\<open>N/A\<close>.
\<close>

theorem top_age_group_most_frequent:
  assumes "rs = rows (apply_filters (add_age_group raw) spec)"
  shows "(\<forall>r\<in>set rs. age_group r = pd_cut age_bins age_labels (age r))
         \<and> (\<forall>a. pd_cut age_bins age_labels a =
                (if 0 \<le> a \<and> a \<le> 25 then Some Under25
                 else if 25 < a \<and> a \<le> 35 then Some From25To35
                 else if 35 < a \<and> a \<le> 45 then Some From35To45
                 else if 45 < a \<and> a \<le> 55 then Some From45To55
                 else if 55 < a \<and> a \<le> 65 then Some From55To65
                 else if 65 < a \<and> a \<le> 100 then Some Over65
                 else None))
         \<and> ((\<exists>r\<in>set rs. 0 \<le> age r \<and> age r \<le> 100) \<longrightarrow>
              (\<exists>b pre post. top_age_group_of rs = Inr (Val b)
                 \<and> age_labels = pre @ b # post
                 \<and> 0 < bucket_count b rs
                 \<and> (\<forall>b'\<in>set pre. bucket_count b' rs < bucket_count b rs)
                 \<and> (\<forall>b'\<in>set post. bucket_count b' rs \<le> bucket_count b rs)))
         \<and> (\<not> (\<exists>r\<in>set rs. 0 \<le> age r \<and> age r \<le> 100) \<longrightarrow> top_age_group_of rs = Inr NA)"
proof -
  let ?cuts = "map (\<lambda>r. pd_cut age_bins age_labels (age r)) rs"
  have cons: "age_group r = pd_cut age_bins age_labels (age r)" if "r \<in> set rs" for r
    using that assms loaded_age_group by blast
  have guard: "(rs \<noteq> [] \<and> nunique (map age_group rs) > 0)
      \<longleftrightarrow> (\<exists>r\<in>set rs. 0 \<le> age r \<and> age r \<le> 100)"
  proof -
    have "(\<exists>l. Some l \<in> set (map age_group rs))
        \<longleftrightarrow> (\<exists>r\<in>set rs. \<exists>b. pd_cut age_bins age_labels (age r) = Some b)"
    proof
      assume "\<exists>l. Some l \<in> set (map age_group rs)"
      then obtain l r where "r \<in> set rs" "age_group r = Some l" by (auto dest: sym)
      then show "\<exists>r\<in>set rs. \<exists>b. pd_cut age_bins age_labels (age r) = Some b"
        using cons by auto
    next
      assume "\<exists>r\<in>set rs. \<exists>b. pd_cut age_bins age_labels (age r) = Some b"
      then obtain r b where r: "r \<in> set rs" "pd_cut age_bins age_labels (age r) = Some b" by auto
      then have "age_group r = Some b" using cons by simp
      with r(1) have "Some b \<in> set (map age_group rs)" by force
      then show "\<exists>l. Some l \<in> set (map age_group rs)" ..
    qed
    then show ?thesis
      unfolding nunique_pos cut_age_Some_iff by auto
  qed
  have in_range: "\<exists>b pre post. top_age_group_of rs = Inr (Val b)
                 \<and> age_labels = pre @ b # post
                 \<and> 0 < bucket_count b rs
                 \<and> (\<forall>b'\<in>set pre. bucket_count b' rs < bucket_count b rs)
                 \<and> (\<forall>b'\<in>set post. bucket_count b' rs \<le> bucket_count b rs)"
    if r: "\<exists>r\<in>set rs. 0 \<le> age r \<and> age r \<le> 100"
  proof -
    from r guard have g: "rs \<noteq> [] \<and> nunique (map age_group rs) > 0" by simp
    obtain t where t: "top_age_group_of rs = Inr t"
      using top_age_group_of_total [of rs] cons by blast
    with g obtain b bs where m: "mode age_labels ?cuts = b # bs" and tb: "t = Val b"
      by (auto simp: top_age_group_of_def split: list.splits)
    from mode_eq_Cons [OF m] t tb show ?thesis
      unfolding count_list_bucket by blast
  qed
  have out_range: "top_age_group_of rs = Inr NA"
    if "\<not> (\<exists>r\<in>set rs. 0 \<le> age r \<and> age r \<le> 100)"
  proof -
    from that guard have "\<not> (rs \<noteq> [] \<and> nunique (map age_group rs) > 0)" by blast
    then show ?thesis unfolding top_age_group_of_def by (rule if_not_P)
  qed
  from cons cut_age_cases in_range out_range show ?thesis
    by blast
qed

text \<open>
  C10. An age above 100 gets no bucket, at load time and when recomputed; the rows with
  such an age count for no bucket, and the most active age group of a filtered set is the
  same with and without them.
\<close>

theorem over_100_has_no_bucket:
  assumes "rs = rows (apply_filters (add_age_group raw) spec)"
  shows "(\<forall>a. 100 < a \<longrightarrow> pd_cut age_bins age_labels a = None)
         \<and> (\<forall>r\<in>set rs. 100 < age r \<longrightarrow> age_group r = None)
         \<and> (\<forall>b. bucket_count b (filter (\<lambda>r. \<not> 100 < age r) rs) = bucket_count b rs)
         \<and> top_age_group_of (filter (\<lambda>r. \<not> 100 < age r) rs) = top_age_group_of rs"
proof -
  let ?keep = "filter (\<lambda>r. \<not> 100 < age r) rs"
  let ?pd_cut = "\<lambda>r. pd_cut age_bins age_labels (age r)"
  have none: "pd_cut age_bins age_labels a = None" if "100 < a" for a
    using that by (simp add: cut_age_cases)
  have cons: "age_group r = ?pd_cut r" if "r \<in> set rs" for r
    using that assms loaded_age_group by blast
  have cnt: "bucket_count b ?keep = bucket_count b rs" for b
  proof -
    have "filter (\<lambda>r. ?pd_cut r = Some b) ?keep = filter (\<lambda>r. ?pd_cut r = Some b) rs"
      using none by (auto intro!: filter_cong)
    then show ?thesis by (simp only: bucket_count_def)
  qed
  have guard: "(?keep \<noteq> [] \<and> nunique (map age_group ?keep) > 0)
      \<longleftrightarrow> (rs \<noteq> [] \<and> nunique (map age_group rs) > 0)"
  proof -
    have "Some l \<in> set (map age_group ?keep) \<longleftrightarrow> Some l \<in> set (map age_group rs)" for l
    proof
      assume "Some l \<in> set (map age_group rs)"
      then obtain r where r: "r \<in> set rs" "age_group r = Some l" by (auto dest: sym)
      then have "\<not> 100 < age r" using cons [OF r(1)] none [of "age r"] by auto
      with r show "Some l \<in> set (map age_group ?keep)" by force
    qed auto
    then have "(\<exists>l. Some l \<in> set (map age_group ?keep)) \<longleftrightarrow> (\<exists>l. Some l \<in> set (map age_group rs))"
      by blast
    moreover have "xs \<noteq> []" if "\<exists>l. Some l \<in> set (map age_group xs)" for xs :: "row list"
      using that by auto
    ultimately show ?thesis
      unfolding nunique_pos by blast
  qed
  have "mode age_labels (map ?pd_cut ?keep) = mode age_labels (map ?pd_cut rs)"
    by (rule mode_cong) (simp only: count_list_bucket cnt)
  with guard have "top_age_group_of ?keep = top_age_group_of rs"
    unfolding top_age_group_of_def by presburger
  with none cons cnt show ?thesis
    by auto
qed


theorem top_age_group_most_frequent_witness:
  "(\<exists>r\<in>set (rows (apply_filters (add_age_group example_raw) unconstrained)).
       0 \<le> age r \<and> age r \<le> 100)
   \<and> top_age_group_of (rows (apply_filters (add_age_group example_raw) unconstrained))
       = Inr (Val From25To35)
   \<and> map (\<lambda>b. bucket_count b (rows (apply_filters (add_age_group example_raw) unconstrained)))
         age_labels = [0, 2, 1, 0, 1, 0]
   \<and> (\<exists>b pre post.
         top_age_group_of (rows (apply_filters (add_age_group example_raw) unconstrained))
           = Inr (Val b)
         \<and> age_labels = pre @ b # post
         \<and> 0 < bucket_count b (rows (apply_filters (add_age_group example_raw) unconstrained))
         \<and> (\<forall>b'\<in>set pre.
               bucket_count b' (rows (apply_filters (add_age_group example_raw) unconstrained))
               < bucket_count b (rows (apply_filters (add_age_group example_raw) unconstrained)))
         \<and> (\<forall>b'\<in>set post.
               bucket_count b' (rows (apply_filters (add_age_group example_raw) unconstrained))
               \<le> bucket_count b (rows (apply_filters (add_age_group example_raw) unconstrained))))"
proof -
  let ?rs = "rows (apply_filters (add_age_group example_raw) unconstrained)"
  have h: "\<exists>r\<in>set ?rs. 0 \<le> age r \<and> age r \<le> 100"
    by code_simp
  have e: "top_age_group_of ?rs = Inr (Val From25To35)"
    by code_simp
  have c: "map (\<lambda>b. bucket_count b ?rs) age_labels = [0, 2, 1, 0, 1, 0]"
    by code_simp
  from top_age_group_most_frequent [OF refl, of example_raw unconstrained] h e c
  show ?thesis
    by blast
qed

text \<open>
  C5 as stated fails: the range \<^verbatim>\<open>60+\<close> selects the one row of age 101, the filtered
  set is not empty, and the most active age group is \<^verbatim>\<open>N/A\<close>, none of the six buckets.
\<close>

theorem top_age_group_na_counterexample:
  "rows (apply_filters (add_age_group example_raw) (unconstrained\<lparr>age_var := ''60+''\<rparr>)) \<noteq> []
   \<and> analyze_data example_library (add_age_group example_raw) (unconstrained\<lparr>age_var := ''60+''\<rparr>) idle_session
       = Inr (idle_session\<lparr>last_filtered_df :=
                 apply_filters (add_age_group example_raw) (unconstrained\<lparr>age_var := ''60+''\<rparr>)\<rparr>,
              Analysed
                \<lparr>total_sales = 10, avg_rating = Val (Round2 (Mean [2])), top_age_group = NA, total_records = 1,
                 rec_text = Items [(''A'', 1, Val (Round2 (Mean [2])))]\<rparr>
                (Some [(''Shoes'', 10)]))"
  by code_simp

theorem over_100_has_no_bucket_witness:
  "(\<exists>r\<in>set (rows (apply_filters (add_age_group example_raw) unconstrained)). 100 < age r)
   \<and> top_age_group_of (rows (apply_filters (add_age_group example_raw) unconstrained))
       = Inr (Val From25To35)
   \<and> top_age_group_of
        (filter (\<lambda>r. \<not> 100 < age r) (rows (apply_filters (add_age_group example_raw) unconstrained)))
       = top_age_group_of (rows (apply_filters (add_age_group example_raw) unconstrained))"
proof -
  let ?rs = "rows (apply_filters (add_age_group example_raw) unconstrained)"
  have h: "\<exists>r\<in>set ?rs. 100 < age r"
    by code_simp
  have e: "top_age_group_of ?rs = Inr (Val From25To35)"
    by code_simp
  from over_100_has_no_bucket [OF refl, of example_raw unconstrained] h e
  show ?thesis
    by blast
qed

section \<open>Recommended items\<close>

lemma short_sort_mset: "mset (rev (sort_key snd (rev s))) = mset s"
  by simp


lemma sort_values_desc_mset:
  "sorts_descending long \<Longrightarrow> mset (sort_values_desc long s) = mset s"
  by (simp add: sort_values_desc_def sorts_descending_def)


lemma set_sort_values_desc: "sorts_descending long \<Longrightarrow> set (sort_values_desc long s) = set s"
  by (rule mset_eq_setD) (rule sort_values_desc_mset)



lemma groupby_keys: "map fst (groupby key rs) = sort (remdups (map key rs))"
  by (simp add: groupby_def comp_def)





lemma count_list_map_filter: "count_list (map f rs) k = length (filter (\<lambda>r. f r = k) rs)"
  by (induction rs) simp_all

text \<open>
  Whatever the library does on longer series, the items the code lists and their order
  depend on how often each item occurs only, not on the order of the rows: no library
  makes the code follow the order of first appearance.
\<close>

lemma listed_items_ignore_row_order:
  assumes "columns df' = columns df"
    and "mset (map item_purchased (rows df')) = mset (map item_purchased (rows df))"
  shows "listed_items (top_items_of lib df') = listed_items (top_items_of lib df)"
proof -
  have keys: "sort (remdups (map item_purchased (rows df')))
      = sort (remdups (map item_purchased (rows df)))"
  proof -
    have "set (map item_purchased (rows df')) = set (map item_purchased (rows df))"
      using assms(2) by (rule mset_eq_setD)
    then show ?thesis
      by (simp only: sorted_list_of_set_sort_remdups [symmetric])
  qed
  have cnt: "length (filter (\<lambda>r. item_purchased r = k) (rows df'))
      = length (filter (\<lambda>r. item_purchased r = k) (rows df))" for k
  proof -
    have "count (mset (map item_purchased (rows df'))) k
        = count (mset (map item_purchased (rows df))) k"
      using assms(2) by simp
    then show ?thesis
      by (simp only: count_mset count_list_map_filter)
  qed
  have sizes: "map (\<lambda>(k, g). (k, length g)) (groupby item_purchased (rows d))
      = map (\<lambda>k. (k, length (filter (\<lambda>r. item_purchased r = k) (rows d))))
          (sort (remdups (map item_purchased (rows d))))" for d
    by (simp add: groupby_def comp_def)
  have "map (\<lambda>(k, g). (k, length g)) (groupby item_purchased (rows df'))
      = map (\<lambda>(k, g). (k, length g)) (groupby item_purchased (rows df))"
    unfolding sizes keys by (simp add: cnt)
  then show ?thesis
    using assms(1)
    by (simp add: listed_items_def top_items_of_def Let_def comp_def case_prod_beta)
qed

section \<open>The pipeline on a complete schema\<close>

text \<open>
  With the columns of purchase amount, previous purchases, customer id and location in
  the dataset, and a library whose sorts of longer series are descending sorts, no report
  and no analysis raises: the errors of the model come from absent columns only.
\<close>

lemma sort_values_desc_Nil:
  "sorts_descending long \<Longrightarrow> sort_values_desc long s = [] \<longleftrightarrow> s = []"
  by (metis set_sort_values_desc set_empty)

lemma groupby_Nil: "groupby key rs = [] \<longleftrightarrow> rs = []"
  by (metis groupby_keys map_is_Nil_conv remdups_eq_nil_iff set_empty set_sort)

lemma report_text_total:
  assumes "''Previous Purchases'' \<in> set (columns df)"
    and "''Customer ID'' \<in> set (columns df)"
    and "''Location'' \<in> set (columns df)"
    and "sorts_descending (sort_long_counts lib)"
    and "sorts_descending (sort_long_amounts lib)"
  shows "\<exists>t. report_text lib df option = Inr t"
proof (cases "is_empty df")
  case True
  then show ?thesis by (simp add: report_text_def)
next
  case False
  then have ne: "rows df \<noteq> []" by (simp add: is_empty_def)
  have loc: "sort_values_desc (sort_long_amounts lib)
               (map (\<lambda>(k, g). (k, sum_list (map purchase_amount g)))
               (groupby location (rows df))) \<noteq> []"
    using ne assms(5) by (simp add: sort_values_desc_Nil groupby_Nil)
  have "value_counts (sort_long_counts lib) (map color (rows df)) \<noteq> []"
    using ne assms(4) by (simp add: value_counts_def sort_values_desc_Nil unique_def)
  then have col: "\<exists>c. idxmax (value_counts (sort_long_counts lib) (map color (rows df))) = Inr c"
    by (auto simp: idxmax_def split: list.splits)
  show ?thesis
    using False assms(1-3) loc col
    by (auto simp: report_text_def Let_def split: list.splits sum.splits)
qed

lemma analyze_data_total:
  assumes "''Purchase Amount (USD)'' \<in> set (columns raw)"
    and "''Previous Purchases'' \<in> set (columns raw)"
    and "''Customer ID'' \<in> set (columns raw)"
    and "''Location'' \<in> set (columns raw)"
    and "sorts_descending (sort_long_counts lib)"
    and "sorts_descending (sort_long_amounts lib)"
  shows "\<exists>res. analyze_data lib (add_age_group raw) spec s = Inr res"
proof -
  let ?f = "apply_filters (add_age_group raw) spec"
  obtain sm where sm: "summary_calculations lib ?f = Inr sm"
    using summary_calculations_total [OF assms(1)] by blast
  have cols: "columns ?f = columns raw @ [''Age Group'']"
    by (simp add: apply_filters_columns add_age_group_def)
  have rep: "\<exists>t. report_text lib ?f option = Inr t" for option
    using assms(2-6) by (intro report_text_total) (simp_all add: cols)
  have upd: "\<exists>s2. update_details_display lib option (s\<lparr>last_filtered_df := ?f\<rparr>) = Inr s2"
    for option
    using rep [of option]
    by (auto simp: update_details_display_def Let_def split: option.splits)
  show ?thesis
    using sm upd [of "current_detail_option s"]
    by (auto simp: analyze_data_def Let_def split: option.splits)
qed

end
